theory Spec2Isabelle
  imports Main
begin

section \<open>Configuration of the Prometheus remote write exporter\<close>

text \<open>
  The development follows \<^verbatim>\<open>exporter/prometheusremotewriteexporter/config.go\<close>.
  Go's \<^verbatim>\<open>int\<close> fields are only ever compared with zero by the code, no arithmetic
  is done on them, so they are modelled as \<^typ>\<open>int\<close>. Go strings are \<^typ>\<open>string\<close>,
  the empty string being \<^term>\<open>[] :: string\<close>.
\<close>

subsection \<open>Data model\<close>

text \<open>\<^verbatim>\<open>type RemoteWriteQueue struct\<close>\<close>

record RemoteWriteQueue =
  Enabled :: bool
  QueueSize :: int
  NumConsumers :: int

text \<open>\<^verbatim>\<open>type MultiTenancy struct\<close>\<close>

record MultiTenancy =
  Enabled :: bool
  Header :: string
  QueryParam :: string
  FromLabel :: string
  DefaultTenant :: string

text \<open>
  \<^verbatim>\<open>type Config struct\<close>. The settings records of the collector core and of
  \<^verbatim>\<open>resourcetotelemetry\<close>, and \<^verbatim>\<open>WALConfig\<close>, are declared outside this file:
  they are type parameters. The \<^verbatim>\<open>WAL\<close> field is a pointer, \<^term>\<open>None\<close> being
  \<^verbatim>\<open>nil\<close>.
\<close>

record ('es, 'ts, 'rs, 'http, 'r2t, 'wal) Config =
  ExporterSettings :: 'es
  TimeoutSettings :: 'ts
  RetrySettings :: 'rs
  sanitizeLabel :: bool
  Namespace :: string
  RemoteWriteQueue :: RemoteWriteQueue
  MultiTenancy :: MultiTenancy
  ExternalLabels :: "string \<rightharpoonup> string"
  HTTPClientSettings :: 'http
  ResourceToTelemetrySettings :: 'r2t
  WAL :: "'wal option"

subsection \<open>Errors\<close>

text \<open>
  \<^verbatim>\<open>fmt.Errorf\<close> is called with a constant format string without verbs: the error
  carries that text. A \<^verbatim>\<open>nil\<close> error is \<^term>\<open>Inr ()\<close>.
\<close>

datatype error = Errorf string

subsection \<open>Validation\<close>

text \<open>\<^verbatim>\<open>func (cfg *Config) Validate() error\<close>, on the record the receiver points to.\<close>

definition Validate :: "('es, 'ts, 'rs, 'http, 'r2t, 'wal) Config \<Rightarrow> error + unit" where
  "Validate cfg =
    (if QueueSize (RemoteWriteQueue cfg) < 0 then
       Inl (Errorf ''remote write queue size can't be negative'')
     else if RemoteWriteQueue.Enabled (RemoteWriteQueue cfg)
             \<and> QueueSize (RemoteWriteQueue cfg) = 0 then
       Inl (Errorf ''a 0 size queue will drop all the data'')
     else if NumConsumers (RemoteWriteQueue cfg) < 0 then
       Inl (Errorf ''remote write consumer number can't be negative'')
     else if MultiTenancy.Enabled (MultiTenancy cfg)
             \<and> Header (MultiTenancy cfg) = ''''
             \<and> QueryParam (MultiTenancy cfg) = '''' then
       Inl (Errorf ''one of multi_tenancy header or query_param should be set'')
     else if MultiTenancy.Enabled (MultiTenancy cfg)
             \<and> FromLabel (MultiTenancy cfg) = '''' then
       Inl (Errorf ''from_label should be set to find tenant name'')
     else Inr ())"

subsection \<open>The call of \<open>Validate\<close> on a store\<close>

text \<open>
  The receiver of \<^verbatim>\<open>Validate\<close> is a pointer to a \<^verbatim>\<open>Config\<close> that the caller shares, so
  what the method does to that object is modelled on an explicit store of \<^verbatim>\<open>Config\<close>
  objects. A pointer is \<^term>\<open>None\<close> (\<^verbatim>\<open>nil\<close>) or an address. A statement is a function
  from the store to its outcome, a panic or a value, and the store it leaves behind.
\<close>

type_synonym addr = nat

datatype panic = nil_pointer_dereference | gate_already_registered string

type_synonym ('c, 'a) stmt = "(addr \<Rightarrow> 'c) \<Rightarrow> (panic + 'a) \<times> (addr \<Rightarrow> 'c)"

text \<open>\<^verbatim>\<open>return v\<close>.\<close>

definition return_stmt :: "'a \<Rightarrow> ('c, 'a) stmt" where
  "return_stmt v h = (Inr v, h)"

text \<open>Sequencing: a panic ends the execution, a value goes to the statements that follow.\<close>

definition bind_stmt :: "('c, 'a) stmt \<Rightarrow> ('a \<Rightarrow> ('c, 'b) stmt) \<Rightarrow> ('c, 'b) stmt" where
  "bind_stmt m f h =
    (case m h of
       (Inl e, h') \<Rightarrow> (Inl e, h')
     | (Inr v, h') \<Rightarrow> f v h')"

text \<open>Reading through a pointer, \<^verbatim>\<open>cfg.Field\<close>: a \<^verbatim>\<open>nil\<close> pointer panics.\<close>

definition load_ptr :: "addr option \<Rightarrow> ('c, 'c) stmt" where
  "load_ptr p h =
    (case p of
       None \<Rightarrow> (Inl nil_pointer_dereference, h)
     | Some a \<Rightarrow> (Inr (h a), h))"

text \<open>
  Writing through a pointer, \<^verbatim>\<open>cfg.Field = v\<close> with the updated record: the one
  statement that changes the store.
\<close>

definition store_ptr :: "addr option \<Rightarrow> 'c \<Rightarrow> ('c, unit) stmt" where
  "store_ptr p c h =
    (case p of
       None \<Rightarrow> (Inl nil_pointer_dereference, h)
     | Some a \<Rightarrow> (Inr (), h(a := c)))"

text \<open>
  \<^verbatim>\<open>func (cfg *Config) Validate() error\<close>, statement by statement: each \<^verbatim>\<open>if\<close> reads
  the fields of its condition through \<^verbatim>\<open>cfg\<close> and either returns its error or falls
  through to the next statement.
\<close>

definition Validate_call ::
  "addr option \<Rightarrow> (('es, 'ts, 'rs, 'http, 'r2t, 'wal) Config, error + unit) stmt" where
  "Validate_call cfg =
    bind_stmt (load_ptr cfg) (\<lambda>c1.
      if QueueSize (RemoteWriteQueue c1) < 0 then
        return_stmt (Inl (Errorf ''remote write queue size can't be negative''))
      else
    bind_stmt (load_ptr cfg) (\<lambda>c2.
      if RemoteWriteQueue.Enabled (RemoteWriteQueue c2)
         \<and> QueueSize (RemoteWriteQueue c2) = 0 then
        return_stmt (Inl (Errorf ''a 0 size queue will drop all the data''))
      else
    bind_stmt (load_ptr cfg) (\<lambda>c3.
      if NumConsumers (RemoteWriteQueue c3) < 0 then
        return_stmt (Inl (Errorf ''remote write consumer number can't be negative''))
      else
    bind_stmt (load_ptr cfg) (\<lambda>c4.
      if MultiTenancy.Enabled (MultiTenancy c4)
         \<and> Header (MultiTenancy c4) = ''''
         \<and> QueryParam (MultiTenancy c4) = '''' then
        return_stmt
          (Inl (Errorf ''one of multi_tenancy header or query_param should be set''))
      else
    bind_stmt (load_ptr cfg) (\<lambda>c5.
      if MultiTenancy.Enabled (MultiTenancy c5)
         \<and> FromLabel (MultiTenancy c5) = '''' then
        return_stmt (Inl (Errorf ''from_label should be set to find tenant name''))
      else
        return_stmt (Inr ()))))))"

subsection \<open>The checks as the specification lists them\<close>

text \<open>
  The specification gives validation as five numbered checks, each a condition with the
  reason reported when it holds, and says that the reason of the first failing check is
  returned. \<open>spec_checks\<close> is that list, in that order, and \<open>spec_validate\<close> reports the
  first entry whose condition holds.
\<close>

definition spec_checks ::
  "((('es, 'ts, 'rs, 'http, 'r2t, 'wal) Config \<Rightarrow> bool) \<times> string) list" where
  "spec_checks =
    [(\<lambda>cfg. QueueSize (RemoteWriteQueue cfg) < 0,
      ''remote write queue size can't be negative''),
     (\<lambda>cfg. RemoteWriteQueue.Enabled (RemoteWriteQueue cfg) = True
             \<and> QueueSize (RemoteWriteQueue cfg) = 0,
      ''a 0 size queue will drop all the data''),
     (\<lambda>cfg. NumConsumers (RemoteWriteQueue cfg) < 0,
      ''remote write consumer number can't be negative''),
     (\<lambda>cfg. MultiTenancy.Enabled (MultiTenancy cfg) = True
             \<and> Header (MultiTenancy cfg) = ''''
             \<and> QueryParam (MultiTenancy cfg) = '''',
      ''one of multi_tenancy header or query_param should be set''),
     (\<lambda>cfg. MultiTenancy.Enabled (MultiTenancy cfg) = True
             \<and> FromLabel (MultiTenancy cfg) = '''',
      ''from_label should be set to find tenant name'')]"

definition spec_validate :: "('es, 'ts, 'rs, 'http, 'r2t, 'wal) Config \<Rightarrow> error + unit" where
  "spec_validate cfg =
    (case find (\<lambda>c. fst c cfg) spec_checks of
       None \<Rightarrow> Inr ()
     | Some c \<Rightarrow> Inl (Errorf (snd c)))"

subsection \<open>The feature gate\<close>

text \<open>
  \<^verbatim>\<open>var dropSanitizationGate = featuregate.Gate{...}\<close>, with the three fields the
  literal sets.
\<close>

record Gate =
  ID :: string
  Enabled :: bool
  Description :: string

definition dropSanitizationGate :: Gate where
  "dropSanitizationGate =
    \<lparr>ID = ''exporter.prometheusremotewrite.PermissiveLabelSanitization'',
     Gate.Enabled = False,
     Description = ''Controls whether to change labels starting with '_' to 'key_'' @ [CHR 0x27]\<rparr>"

text \<open>
  Modelled from the spec: the feature-flag registry and its registration call
  (\<^verbatim>\<open>featuregate.GetRegistry().MustRegister\<close>) are not in this file. The specification
  describes the registry as process-wide state holding named flags, with a
  \<^verbatim>\<open>register(flagID, defaultEnabled, description)\<close> operation that must fail loudly,
  and never silently overwrite, when the same flag name is registered twice. The registry
  is a map from identifiers to gates, threaded through the call; the loud failure is a
  panic that leaves the registry as it was.
\<close>

type_synonym Registry = "string \<rightharpoonup> Gate"

definition MustRegister :: "Gate \<Rightarrow> Registry \<Rightarrow> (panic + unit) \<times> Registry" where
  "MustRegister g r =
    (case r (ID g) of
       Some _ \<Rightarrow> (Inl (gate_already_registered (ID g)), r)
     | None \<Rightarrow> (Inr (), r(ID g \<mapsto> g)))"

text \<open>
  \<^verbatim>\<open>func init()\<close>: Go runs it once, when the package is initialised; it acts on the
  global registry.
\<close>

definition init :: "Registry \<Rightarrow> (panic + unit) \<times> Registry" where
  "init r = MustRegister dropSanitizationGate r"

subsection \<open>Example configurations\<close>

text \<open>
  \<open>Config_of q m\<close> is the configuration with queue settings \<open>q\<close>, multi-tenancy settings
  \<open>m\<close> and Go's zero value in every other field; the external settings are instantiated
  with \<^typ>\<open>unit\<close>.
\<close>

definition Config_of ::
  "RemoteWriteQueue \<Rightarrow> MultiTenancy \<Rightarrow> (unit, unit, unit, unit, unit, unit) Config" where
  "Config_of q m =
    \<lparr>ExporterSettings = (), TimeoutSettings = (), RetrySettings = (),
     sanitizeLabel = False, Namespace = '''',
     RemoteWriteQueue = q, MultiTenancy = m,
     ExternalLabels = Map.empty, HTTPClientSettings = (),
     ResourceToTelemetrySettings = (), WAL = None\<rparr>"

definition zero_RemoteWriteQueue :: RemoteWriteQueue where
  "zero_RemoteWriteQueue =
    \<lparr>RemoteWriteQueue.Enabled = False, QueueSize = 0, NumConsumers = 0\<rparr>"

definition zero_MultiTenancy :: MultiTenancy where
  "zero_MultiTenancy =
    \<lparr>MultiTenancy.Enabled = False, Header = '''', QueryParam = '''',
     FromLabel = '''', DefaultTenant = ''''\<rparr>"

definition zero_Config :: "(unit, unit, unit, unit, unit, unit) Config" where
  "zero_Config = Config_of zero_RemoteWriteQueue zero_MultiTenancy"

text \<open>The scenarios A to D of the specification's testable properties.\<close>

definition scenario_A :: "(unit, unit, unit, unit, unit, unit) Config" where
  "scenario_A =
    Config_of \<lparr>RemoteWriteQueue.Enabled = True, QueueSize = - 1, NumConsumers = 5\<rparr>
      zero_MultiTenancy"

definition scenario_B :: "(unit, unit, unit, unit, unit, unit) Config" where
  "scenario_B =
    Config_of \<lparr>RemoteWriteQueue.Enabled = True, QueueSize = 0, NumConsumers = 5\<rparr>
      zero_MultiTenancy"

definition scenario_C :: "(unit, unit, unit, unit, unit, unit) Config" where
  "scenario_C =
    Config_of zero_RemoteWriteQueue
      \<lparr>MultiTenancy.Enabled = True, Header = ''X-Tenant'', QueryParam = '''',
       FromLabel = '''', DefaultTenant = ''''\<rparr>"

definition scenario_D :: "(unit, unit, unit, unit, unit, unit) Config" where
  "scenario_D =
    Config_of zero_RemoteWriteQueue
      \<lparr>MultiTenancy.Enabled = True, Header = ''X-Tenant'', QueryParam = '''',
       FromLabel = ''tenant_id'', DefaultTenant = ''''\<rparr>"

text \<open>Configurations that break several rules at once.\<close>

definition late_failures :: "(unit, unit, unit, unit, unit, unit) Config" where
  "late_failures =
    Config_of \<lparr>RemoteWriteQueue.Enabled = False, QueueSize = 0, NumConsumers = - 1\<rparr>
      \<lparr>MultiTenancy.Enabled = True, Header = '''', QueryParam = '''',
       FromLabel = '''', DefaultTenant = ''''\<rparr>"

definition negative_size_and_consumers :: "(unit, unit, unit, unit, unit, unit) Config" where
  "negative_size_and_consumers =
    Config_of \<lparr>RemoteWriteQueue.Enabled = True, QueueSize = - 1, NumConsumers = - 1\<rparr>
      zero_MultiTenancy"

definition negative_consumers_no_tenant_target ::
  "(unit, unit, unit, unit, unit, unit) Config" where
  "negative_consumers_no_tenant_target =
    Config_of \<lparr>RemoteWriteQueue.Enabled = False, QueueSize = 0, NumConsumers = - 1\<rparr>
      \<lparr>MultiTenancy.Enabled = True, Header = '''', QueryParam = '''',
       FromLabel = ''tenant_id'', DefaultTenant = ''''\<rparr>"

definition zero_queue_no_from_label :: "(unit, unit, unit, unit, unit, unit) Config" where
  "zero_queue_no_from_label =
    Config_of \<lparr>RemoteWriteQueue.Enabled = True, QueueSize = 0, NumConsumers = 5\<rparr>
      \<lparr>MultiTenancy.Enabled = True, Header = ''X-Tenant'', QueryParam = '''',
       FromLabel = '''', DefaultTenant = ''''\<rparr>"

text \<open>Configurations that pass the queue rules and break one later rule.\<close>

definition negative_consumers :: "(unit, unit, unit, unit, unit, unit) Config" where
  "negative_consumers =
    Config_of \<lparr>RemoteWriteQueue.Enabled = True, QueueSize = 10, NumConsumers = - 1\<rparr>
      zero_MultiTenancy"

definition no_tenant_target :: "(unit, unit, unit, unit, unit, unit) Config" where
  "no_tenant_target =
    Config_of zero_RemoteWriteQueue
      \<lparr>MultiTenancy.Enabled = True, Header = '''', QueryParam = '''',
       FromLabel = ''tenant_id'', DefaultTenant = ''''\<rparr>"

text \<open>
  Scenario B again, with every field that \<open>Validate\<close> does not read set to something
  other than its zero value, and other types of external settings.
\<close>

definition scenario_B_decorated :: "(bool, nat, int, string, bool, nat) Config" where
  "scenario_B_decorated =
    \<lparr>ExporterSettings = True, TimeoutSettings = 5, RetrySettings = 3,
     sanitizeLabel = True, Namespace = ''ns'',
     RemoteWriteQueue = \<lparr>RemoteWriteQueue.Enabled = True, QueueSize = 0, NumConsumers = 5\<rparr>,
     MultiTenancy = \<lparr>MultiTenancy.Enabled = False, Header = '''', QueryParam = '''',
       FromLabel = '''', DefaultTenant = ''fallback''\<rparr>,
     ExternalLabels = [''__replica__'' \<mapsto> ''a''], HTTPClientSettings = ''http://host'',
     ResourceToTelemetrySettings = True, WAL = Some 7\<rparr>"

text \<open>A store holding scenario B at address 0 and the zero configuration elsewhere.\<close>

definition example_store :: "addr \<Rightarrow> (unit, unit, unit, unit, unit, unit) Config" where
  "example_store = (\<lambda>a. zero_Config)(0 := scenario_B)"

text \<open>
  A registry in which another component has already registered a gate, enabled, under
  the identifier of \<open>dropSanitizationGate\<close>.
\<close>

definition occupied_registry :: Registry where
  "occupied_registry =
    [''exporter.prometheusremotewrite.PermissiveLabelSanitization'' \<mapsto>
      \<lparr>ID = ''exporter.prometheusremotewrite.PermissiveLabelSanitization'',
       Gate.Enabled = True, Description = ''registered before''\<rparr>]"

section \<open>Properties of validation\<close>

lemmas example_defs = Config_of_def zero_RemoteWriteQueue_def zero_MultiTenancy_def

lemma Validate_refines_spec: "Validate cfg = spec_validate cfg"
  by (simp add: Validate_def spec_validate_def spec_checks_def)

lemma length_spec_checks: "length spec_checks = 5"
  by (simp add: spec_checks_def)

text \<open>
  C1. The five checks are tried in the order of the specification and the reason of the
  first one that fails is returned: if check \<open>i\<close> of the list fails on a configuration and
  no check before it does, \<open>Validate\<close> rejects with the reason of check \<open>i\<close>, whatever the
  later checks say.
\<close>

theorem Validate_first_failing_check:
  assumes i: "i < length spec_checks"
    and fails: "fst (spec_checks ! i) cfg"
    and earlier: "\<forall>j<i. \<not> fst (spec_checks ! j) cfg"
  shows "Validate cfg = Inl (Errorf (snd (spec_checks ! i)))"
proof -
  from i have "i < 5" by (simp add: length_spec_checks)
  then consider "i = 0" | "i = 1" | "i = 2" | "i = 3" | "i = 4" by linarith
  then show ?thesis
  proof cases
    case 1
    with fails show ?thesis by (simp add: spec_checks_def Validate_def)
  next
    case 2
    with earlier have "\<not> fst (spec_checks ! 0) cfg" by simp
    with 2 fails show ?thesis by (simp add: spec_checks_def Validate_def)
  next
    case 3
    with earlier have "\<not> fst (spec_checks ! 0) cfg" "\<not> fst (spec_checks ! 1) cfg"
      by simp_all
    with 3 fails show ?thesis by (simp add: spec_checks_def Validate_def)
  next
    case 4
    with earlier have "\<not> fst (spec_checks ! 0) cfg" "\<not> fst (spec_checks ! 1) cfg"
      "\<not> fst (spec_checks ! 2) cfg" by simp_all
    with 4 fails show ?thesis by (simp add: spec_checks_def Validate_def)
  next
    case 5
    with earlier have "\<not> fst (spec_checks ! 0) cfg" "\<not> fst (spec_checks ! 1) cfg"
      "\<not> fst (spec_checks ! 2) cfg" "\<not> fst (spec_checks ! 3) cfg" by simp_all
    with 5 fails show ?thesis by (simp add: spec_checks_def Validate_def)
  qed
qed

text \<open>
  A configuration that breaks the third, fourth and fifth rule at once: the reason is
  that of the third.
\<close>

theorem Validate_first_failing_check_witness:
  "(2::nat) < length (spec_checks :: (((unit, unit, unit, unit, unit, unit) Config \<Rightarrow> bool) \<times> string) list)
   \<and> fst (spec_checks ! 2) late_failures
   \<and> fst (spec_checks ! 3) late_failures
   \<and> fst (spec_checks ! 4) late_failures
   \<and> \<not> fst (spec_checks ! 0) late_failures
   \<and> \<not> fst (spec_checks ! 1) late_failures
   \<and> Validate late_failures = Inl (Errorf ''remote write consumer number can't be negative'')"
proof -
  have i: "(2::nat) < length (spec_checks :: (((unit, unit, unit, unit, unit, unit) Config \<Rightarrow> bool) \<times> string) list)"
    by (simp add: length_spec_checks)
  have fails: "fst (spec_checks ! 2) late_failures"
    by (simp add: spec_checks_def late_failures_def example_defs)
  have later: "fst (spec_checks ! 3) late_failures" "fst (spec_checks ! 4) late_failures"
    by (simp_all add: spec_checks_def late_failures_def example_defs)
  have passes: "\<not> fst (spec_checks ! 0) late_failures" "\<not> fst (spec_checks ! 1) late_failures"
    by (simp_all add: spec_checks_def late_failures_def example_defs)
  then have earlier: "\<forall>j<2. \<not> fst (spec_checks ! j) late_failures"
    by (simp add: less_Suc_eq numeral_2_eq_2)
  from Validate_first_failing_check [OF i fails earlier]
  have "Validate late_failures = Inl (Errorf ''remote write consumer number can't be negative'')"
    by (simp add: spec_checks_def)
  with i fails later passes show ?thesis by (intro conjI)
qed

text \<open>
  C2. \<open>Validate\<close> accepts exactly when no rule fires: it returns no error if and only if
  the queue size is not negative, the queue is not enabled with size zero, the number of
  consumers is not negative, and multi-tenancy is not enabled with both header and query
  parameter empty nor with an empty \<open>from_label\<close>. The all-zero configuration is accepted.
\<close>

theorem Validate_accepts_iff:
  "(Validate cfg = Inr ()
     \<longleftrightarrow> 0 \<le> QueueSize (RemoteWriteQueue cfg)
       \<and> \<not> (RemoteWriteQueue.Enabled (RemoteWriteQueue cfg) \<and> QueueSize (RemoteWriteQueue cfg) = 0)
       \<and> 0 \<le> NumConsumers (RemoteWriteQueue cfg)
       \<and> \<not> (MultiTenancy.Enabled (MultiTenancy cfg) \<and> Header (MultiTenancy cfg) = ''''
            \<and> QueryParam (MultiTenancy cfg) = '''')
       \<and> \<not> (MultiTenancy.Enabled (MultiTenancy cfg) \<and> FromLabel (MultiTenancy cfg) = ''''))
   \<and> Validate zero_Config = Inr ()"
  by (auto simp add: Validate_def zero_Config_def example_defs)

theorem Validate_accepts_iff_witness:
  "0 \<le> QueueSize (RemoteWriteQueue scenario_D)
   \<and> \<not> (RemoteWriteQueue.Enabled (RemoteWriteQueue scenario_D)
        \<and> QueueSize (RemoteWriteQueue scenario_D) = 0)
   \<and> 0 \<le> NumConsumers (RemoteWriteQueue scenario_D)
   \<and> \<not> (MultiTenancy.Enabled (MultiTenancy scenario_D)
        \<and> Header (MultiTenancy scenario_D) = ''''
        \<and> QueryParam (MultiTenancy scenario_D) = '''')
   \<and> \<not> (MultiTenancy.Enabled (MultiTenancy scenario_D)
        \<and> FromLabel (MultiTenancy scenario_D) = '''')
   \<and> Validate scenario_D = Inr ()"
proof -
  have ok: "0 \<le> QueueSize (RemoteWriteQueue scenario_D)
   \<and> \<not> (RemoteWriteQueue.Enabled (RemoteWriteQueue scenario_D)
        \<and> QueueSize (RemoteWriteQueue scenario_D) = 0)
   \<and> 0 \<le> NumConsumers (RemoteWriteQueue scenario_D)
   \<and> \<not> (MultiTenancy.Enabled (MultiTenancy scenario_D)
        \<and> Header (MultiTenancy scenario_D) = ''''
        \<and> QueryParam (MultiTenancy scenario_D) = '''')
   \<and> \<not> (MultiTenancy.Enabled (MultiTenancy scenario_D)
        \<and> FromLabel (MultiTenancy scenario_D) = '''')"
    by (simp add: scenario_D_def example_defs)
  with Validate_accepts_iff [of scenario_D] show ?thesis by blast
qed

text \<open>
  C3. A configuration whose queue size is negative is rejected with the message
  ``remote write queue size can't be negative'', whatever the other fields hold.
\<close>

theorem Validate_negative_queue_size:
  "QueueSize (RemoteWriteQueue cfg) < 0 \<Longrightarrow>
   Validate cfg = Inl (Errorf ''remote write queue size can't be negative'')"
  by (simp add: Validate_def)

theorem Validate_negative_queue_size_witness:
  "QueueSize (RemoteWriteQueue scenario_A) < 0
   \<and> Validate scenario_A = Inl (Errorf ''remote write queue size can't be negative'')"
proof -
  have h: "QueueSize (RemoteWriteQueue scenario_A) < 0"
    by (simp add: scenario_A_def example_defs)
  from h Validate_negative_queue_size [OF h] show ?thesis by blast
qed

text \<open>
  C4. A configuration whose queue is enabled with size zero is rejected with the message
  ``a 0 size queue will drop all the data''.
\<close>

theorem Validate_zero_size_queue:
  "RemoteWriteQueue.Enabled (RemoteWriteQueue cfg) \<Longrightarrow> QueueSize (RemoteWriteQueue cfg) = 0 \<Longrightarrow>
   Validate cfg = Inl (Errorf ''a 0 size queue will drop all the data'')"
  by (simp add: Validate_def)

theorem Validate_zero_size_queue_witness:
  "RemoteWriteQueue.Enabled (RemoteWriteQueue scenario_B)
   \<and> QueueSize (RemoteWriteQueue scenario_B) = 0
   \<and> Validate scenario_B = Inl (Errorf ''a 0 size queue will drop all the data'')"
proof -
  have en: "RemoteWriteQueue.Enabled (RemoteWriteQueue scenario_B)"
    and sz: "QueueSize (RemoteWriteQueue scenario_B) = 0"
    by (simp_all add: scenario_B_def example_defs)
  from en sz Validate_zero_size_queue [OF en sz] show ?thesis by blast
qed

text \<open>
  C5 (as stated). ``Every configuration with a negative number of consumers is rejected
  with the message about the consumer number'' fails: with a negative queue size as well,
  the first check fires and its reason is the one returned.
\<close>

theorem Validate_negative_consumers_counterexample:
  "NumConsumers (RemoteWriteQueue negative_size_and_consumers) < 0
   \<and> Validate negative_size_and_consumers
       = Inl (Errorf ''remote write queue size can't be negative'')
   \<and> Validate negative_size_and_consumers
       \<noteq> Inl (Errorf ''remote write consumer number can't be negative'')"
  by (simp add: Validate_def negative_size_and_consumers_def example_defs)

text \<open>
  C5 (amended). Every configuration with a negative number of consumers is rejected; the
  message is ``remote write consumer number can't be negative'' whenever neither of the
  two earlier checks fires, that is when the queue size is not negative and the queue is
  not enabled with size zero.
\<close>

theorem Validate_negative_consumers:
  assumes "NumConsumers (RemoteWriteQueue cfg) < 0"
  shows "Validate cfg \<noteq> Inr ()
    \<and> (0 \<le> QueueSize (RemoteWriteQueue cfg)
       \<and> \<not> (RemoteWriteQueue.Enabled (RemoteWriteQueue cfg)
            \<and> QueueSize (RemoteWriteQueue cfg) = 0)
       \<longrightarrow> Validate cfg = Inl (Errorf ''remote write consumer number can't be negative''))"
  using assms by (simp add: Validate_def)

theorem Validate_negative_consumers_witness:
  "NumConsumers (RemoteWriteQueue negative_consumers) < 0
   \<and> 0 \<le> QueueSize (RemoteWriteQueue negative_consumers)
   \<and> \<not> (RemoteWriteQueue.Enabled (RemoteWriteQueue negative_consumers)
        \<and> QueueSize (RemoteWriteQueue negative_consumers) = 0)
   \<and> Validate negative_consumers
       = Inl (Errorf ''remote write consumer number can't be negative'')"
proof -
  have neg: "NumConsumers (RemoteWriteQueue negative_consumers) < 0"
    by (simp add: negative_consumers_def example_defs)
  have queue: "0 \<le> QueueSize (RemoteWriteQueue negative_consumers)
    \<and> \<not> (RemoteWriteQueue.Enabled (RemoteWriteQueue negative_consumers)
         \<and> QueueSize (RemoteWriteQueue negative_consumers) = 0)"
    by (simp add: negative_consumers_def example_defs)
  from neg queue Validate_negative_consumers [OF neg] show ?thesis by blast
qed

text \<open>
  C6 (as stated). ``Every configuration with multi-tenancy enabled and neither header nor
  query parameter set is rejected with the message about header or query parameter''
  fails: with a negative number of consumers as well, the third check fires first.
\<close>

theorem Validate_no_tenant_target_counterexample:
  "MultiTenancy.Enabled (MultiTenancy negative_consumers_no_tenant_target)
   \<and> Header (MultiTenancy negative_consumers_no_tenant_target) = ''''
   \<and> QueryParam (MultiTenancy negative_consumers_no_tenant_target) = ''''
   \<and> Validate negative_consumers_no_tenant_target
       = Inl (Errorf ''remote write consumer number can't be negative'')
   \<and> Validate negative_consumers_no_tenant_target
       \<noteq> Inl (Errorf ''one of multi_tenancy header or query_param should be set'')"
  by (simp add: Validate_def negative_consumers_no_tenant_target_def example_defs)

text \<open>
  C6 (amended). Every configuration with multi-tenancy enabled and both header and query
  parameter empty is rejected, whatever \<open>from_label\<close> holds; the message is ``one of
  multi_tenancy header or query_param should be set'' whenever none of the three queue
  checks fires, that is when queue size and number of consumers are not negative and the
  queue is not enabled with size zero.
\<close>

theorem Validate_no_tenant_target:
  assumes "MultiTenancy.Enabled (MultiTenancy cfg)"
    and "Header (MultiTenancy cfg) = ''''"
    and "QueryParam (MultiTenancy cfg) = ''''"
  shows "Validate cfg \<noteq> Inr ()
    \<and> (0 \<le> QueueSize (RemoteWriteQueue cfg)
       \<and> \<not> (RemoteWriteQueue.Enabled (RemoteWriteQueue cfg)
            \<and> QueueSize (RemoteWriteQueue cfg) = 0)
       \<and> 0 \<le> NumConsumers (RemoteWriteQueue cfg)
       \<longrightarrow> Validate cfg
            = Inl (Errorf ''one of multi_tenancy header or query_param should be set''))"
  using assms by (simp add: Validate_def)

theorem Validate_no_tenant_target_witness:
  "MultiTenancy.Enabled (MultiTenancy no_tenant_target)
   \<and> Header (MultiTenancy no_tenant_target) = ''''
   \<and> QueryParam (MultiTenancy no_tenant_target) = ''''
   \<and> FromLabel (MultiTenancy no_tenant_target) \<noteq> ''''
   \<and> 0 \<le> QueueSize (RemoteWriteQueue no_tenant_target)
   \<and> \<not> (RemoteWriteQueue.Enabled (RemoteWriteQueue no_tenant_target)
        \<and> QueueSize (RemoteWriteQueue no_tenant_target) = 0)
   \<and> 0 \<le> NumConsumers (RemoteWriteQueue no_tenant_target)
   \<and> Validate no_tenant_target
       = Inl (Errorf ''one of multi_tenancy header or query_param should be set'')"
proof -
  have en: "MultiTenancy.Enabled (MultiTenancy no_tenant_target)"
    and hd: "Header (MultiTenancy no_tenant_target) = ''''"
    and qp: "QueryParam (MultiTenancy no_tenant_target) = ''''"
    and fl: "FromLabel (MultiTenancy no_tenant_target) \<noteq> ''''"
    by (simp_all add: no_tenant_target_def example_defs)
  have queue: "0 \<le> QueueSize (RemoteWriteQueue no_tenant_target)
    \<and> \<not> (RemoteWriteQueue.Enabled (RemoteWriteQueue no_tenant_target)
         \<and> QueueSize (RemoteWriteQueue no_tenant_target) = 0)
    \<and> 0 \<le> NumConsumers (RemoteWriteQueue no_tenant_target)"
    by (simp add: no_tenant_target_def example_defs)
  from en hd qp fl queue Validate_no_tenant_target [OF en hd qp] show ?thesis by blast
qed

text \<open>
  C7 (as stated). ``Every configuration with multi-tenancy enabled, a header or query
  parameter set and an empty \<open>from_label\<close> is rejected with the message about
  \<open>from_label\<close>'' fails: with an enabled queue of size zero as well, the second check
  fires first.
\<close>

theorem Validate_no_from_label_counterexample:
  "MultiTenancy.Enabled (MultiTenancy zero_queue_no_from_label)
   \<and> Header (MultiTenancy zero_queue_no_from_label) = ''X-Tenant''
   \<and> FromLabel (MultiTenancy zero_queue_no_from_label) = ''''
   \<and> Validate zero_queue_no_from_label = Inl (Errorf ''a 0 size queue will drop all the data'')
   \<and> Validate zero_queue_no_from_label
       \<noteq> Inl (Errorf ''from_label should be set to find tenant name'')"
  by (simp add: Validate_def zero_queue_no_from_label_def example_defs)

text \<open>
  C7 (amended). Every configuration with multi-tenancy enabled, at least one of header
  and query parameter non-empty, and an empty \<open>from_label\<close> is rejected; the message is
  ``from_label should be set to find tenant name'' whenever none of the three queue
  checks fires, that is when queue size and number of consumers are not negative and the
  queue is not enabled with size zero.
\<close>

theorem Validate_no_from_label:
  assumes "MultiTenancy.Enabled (MultiTenancy cfg)"
    and "Header (MultiTenancy cfg) \<noteq> '''' \<or> QueryParam (MultiTenancy cfg) \<noteq> ''''"
    and "FromLabel (MultiTenancy cfg) = ''''"
  shows "Validate cfg \<noteq> Inr ()
    \<and> (0 \<le> QueueSize (RemoteWriteQueue cfg)
       \<and> \<not> (RemoteWriteQueue.Enabled (RemoteWriteQueue cfg)
            \<and> QueueSize (RemoteWriteQueue cfg) = 0)
       \<and> 0 \<le> NumConsumers (RemoteWriteQueue cfg)
       \<longrightarrow> Validate cfg = Inl (Errorf ''from_label should be set to find tenant name''))"
  using assms by (auto simp add: Validate_def)

theorem Validate_no_from_label_witness:
  "MultiTenancy.Enabled (MultiTenancy scenario_C)
   \<and> Header (MultiTenancy scenario_C) = ''X-Tenant''
   \<and> FromLabel (MultiTenancy scenario_C) = ''''
   \<and> 0 \<le> QueueSize (RemoteWriteQueue scenario_C)
   \<and> \<not> (RemoteWriteQueue.Enabled (RemoteWriteQueue scenario_C)
        \<and> QueueSize (RemoteWriteQueue scenario_C) = 0)
   \<and> 0 \<le> NumConsumers (RemoteWriteQueue scenario_C)
   \<and> Validate scenario_C = Inl (Errorf ''from_label should be set to find tenant name'')"
proof -
  have en: "MultiTenancy.Enabled (MultiTenancy scenario_C)"
    and target: "Header (MultiTenancy scenario_C) \<noteq> ''''
      \<or> QueryParam (MultiTenancy scenario_C) \<noteq> ''''"
    and fl: "FromLabel (MultiTenancy scenario_C) = ''''"
    and hd: "Header (MultiTenancy scenario_C) = ''X-Tenant''"
    by (simp_all add: scenario_C_def example_defs)
  have queue: "0 \<le> QueueSize (RemoteWriteQueue scenario_C)
    \<and> \<not> (RemoteWriteQueue.Enabled (RemoteWriteQueue scenario_C)
         \<and> QueueSize (RemoteWriteQueue scenario_C) = 0)
    \<and> 0 \<le> NumConsumers (RemoteWriteQueue scenario_C)"
    by (simp add: scenario_C_def example_defs)
  from en hd fl queue Validate_no_from_label [OF en target fl] show ?thesis by blast
qed

text \<open>
  Reads, returns and their sequences leave the store as they found it; a write does
  not.
\<close>

lemma load_ptr_frame: "snd (load_ptr p h) = h"
  by (simp add: load_ptr_def split: option.split)

lemma return_stmt_frame: "snd (return_stmt v h) = h"
  by (simp add: return_stmt_def)

lemma bind_stmt_frame:
  assumes "\<And>h. snd (m h) = h" and "\<And>v h. snd (f v h) = h"
  shows "snd (bind_stmt m f h) = h"
proof (cases "m h")
  case (Pair r h')
  with assms(1) [of h] have "h' = h" by simp
  with Pair assms(2) show ?thesis
    by (cases r) (simp_all add: bind_stmt_def)
qed

lemma store_ptr_changes: "snd (store_ptr (Some a) c h) a = c"
  by (simp add: store_ptr_def)

text \<open>The body of \<open>Validate\<close> is built from reads and returns only.\<close>

lemma Validate_call_frame: "snd (Validate_call p h) = h"
  unfolding Validate_call_def
  by (intro bind_stmt_frame load_ptr_frame)
    (simp add: return_stmt_frame bind_stmt_frame load_ptr_frame)

text \<open>
  On an address, the statements compute what \<open>Validate\<close> gives for the configuration
  stored there.
\<close>

lemma Validate_call_result: "fst (Validate_call (Some a) h) = Inr (Validate (h a))"
  by (simp add: Validate_call_def Validate_def bind_stmt_def load_ptr_def return_stmt_def)

text \<open>
  C8. \<open>Validate\<close> has no side effect and is a function of the configuration its receiver
  points to: a call leaves the store of configurations, hence every field of every
  \<open>Config\<close> with its embedded queue and multi-tenancy records, as it was, whether it
  accepts, rejects or is called on \<open>nil\<close>; on an address it returns what \<open>Validate\<close> gives
  for the configuration stored there; calls on equal configurations, in whatever stores,
  return the same result; and a second call after the first returns the same again.
\<close>

theorem Validate_call_pure:
  "snd (Validate_call p h) = h
   \<and> fst (Validate_call (Some a) h) = Inr (Validate (h a))
   \<and> (h a = h' a' \<longrightarrow> fst (Validate_call (Some a) h) = fst (Validate_call (Some a') h'))
   \<and> Validate_call p (snd (Validate_call p h)) = Validate_call p h"
  by (simp add: Validate_call_frame Validate_call_result)

theorem Validate_call_pure_witness:
  "example_store 0 = (example_store(1 := scenario_B)) 1
   \<and> snd (Validate_call (Some 0) example_store) = example_store
   \<and> fst (Validate_call (Some 0) example_store)
       = Inr (Inl (Errorf ''a 0 size queue will drop all the data''))
   \<and> fst (Validate_call (Some 0) example_store)
       = fst (Validate_call (Some 1) (example_store(1 := scenario_B)))"
proof -
  let ?h' = "example_store(1 := scenario_B)"
  have same: "example_store 0 = ?h' 1"
    by (simp add: example_store_def)
  have B: "Validate (example_store 0) = Inl (Errorf ''a 0 size queue will drop all the data'')"
    by (simp add: example_store_def Validate_def scenario_B_def example_defs)
  note pure = Validate_call_pure [of "Some 0" example_store 0 ?h' 1]
  from pure have frame: "snd (Validate_call (Some 0) example_store) = example_store"
    by (rule conjunct1)
  from pure B have result: "fst (Validate_call (Some 0) example_store)
      = Inr (Inl (Errorf ''a 0 size queue will drop all the data''))"
    by (simp only:)
  from pure same have equal: "fst (Validate_call (Some 0) example_store)
      = fst (Validate_call (Some 1) ?h')"
    by blast
  from same frame result equal show ?thesis by (intro conjI)
qed

text \<open>
  C9. Package initialisation registers the gate
  \<open>exporter.prometheusremotewrite.PermissiveLabelSanitization\<close> once, disabled: on the
  empty registry \<open>init\<close> succeeds and leaves exactly that gate, and on any registry
  without the identifier it adds the gate and nothing else. A registration under an
  identifier that is already present fails with a panic and leaves the registry, with
  the gate first registered, as it was; so running \<open>init\<close> again after \<open>init\<close> always
  fails and changes nothing.
\<close>

theorem init_registers_gate_once:
  "init Map.empty = (Inr (), [ID dropSanitizationGate \<mapsto> dropSanitizationGate])
   \<and> ID dropSanitizationGate = ''exporter.prometheusremotewrite.PermissiveLabelSanitization''
   \<and> Gate.Enabled dropSanitizationGate = False
   \<and> (r (ID dropSanitizationGate) = None
        \<longrightarrow> init r = (Inr (), r(ID dropSanitizationGate \<mapsto> dropSanitizationGate)))
   \<and> (r (ID g) = Some g0
        \<longrightarrow> MustRegister g r = (Inl (gate_already_registered (ID g)), r))
   \<and> init (snd (init r))
       = (Inl (gate_already_registered (ID dropSanitizationGate)), snd (init r))"
  by (simp add: init_def MustRegister_def dropSanitizationGate_def split: option.split)

theorem init_registers_gate_once_witness:
  "Map.empty (ID dropSanitizationGate) = (None :: Gate option)
   \<and> init Map.empty = (Inr (), [ID dropSanitizationGate \<mapsto> dropSanitizationGate])
   \<and> occupied_registry (ID dropSanitizationGate)
       = Some \<lparr>ID = ''exporter.prometheusremotewrite.PermissiveLabelSanitization'',
               Gate.Enabled = True, Description = ''registered before''\<rparr>
   \<and> MustRegister dropSanitizationGate occupied_registry
       = (Inl (gate_already_registered (ID dropSanitizationGate)), occupied_registry)
   \<and> snd (init occupied_registry) (ID dropSanitizationGate)
       = Some \<lparr>ID = ''exporter.prometheusremotewrite.PermissiveLabelSanitization'',
               Gate.Enabled = True, Description = ''registered before''\<rparr>"
proof -
  let ?g0 = "\<lparr>ID = ''exporter.prometheusremotewrite.PermissiveLabelSanitization'',
               Gate.Enabled = True, Description = ''registered before''\<rparr>"
  have free: "Map.empty (ID dropSanitizationGate) = (None :: Gate option)"
    by simp
  have occupied: "occupied_registry (ID dropSanitizationGate) = Some ?g0"
    by (simp add: occupied_registry_def dropSanitizationGate_def)
  note fresh = init_registers_gate_once [of Map.empty dropSanitizationGate ?g0]
  note again = init_registers_gate_once [of occupied_registry dropSanitizationGate ?g0]
  from fresh free
  have first: "init Map.empty = (Inr (), [ID dropSanitizationGate \<mapsto> dropSanitizationGate])"
    by blast
  from again occupied
  have second: "MustRegister dropSanitizationGate occupied_registry
      = (Inl (gate_already_registered (ID dropSanitizationGate)), occupied_registry)"
    by blast
  from second occupied
  have kept: "snd (init occupied_registry) (ID dropSanitizationGate) = Some ?g0"
    by (simp add: init_def)
  from free first occupied second kept show ?thesis by (intro conjI)
qed

text \<open>
  C10. The result of \<open>Validate\<close> depends only on the three queue fields and on the
  multi-tenancy fields \<open>Enabled\<close>, \<open>Header\<close>, \<open>QueryParam\<close> and \<open>FromLabel\<close>: two
  configurations that agree on these seven fields get the same result, whatever their
  namespace, external labels, default tenant, \<open>sanitizeLabel\<close>, WAL and transport, retry,
  timeout and conversion settings are (and of whatever types the latter are).
\<close>

theorem Validate_depends_on_seven_fields:
  fixes cfg :: "('es, 'ts, 'rs, 'http, 'r2t, 'wal) Config"
    and cfg' :: "('es', 'ts', 'rs', 'http', 'r2t', 'wal') Config"
  assumes "RemoteWriteQueue.Enabled (RemoteWriteQueue cfg)
            = RemoteWriteQueue.Enabled (RemoteWriteQueue cfg')"
    and "QueueSize (RemoteWriteQueue cfg) = QueueSize (RemoteWriteQueue cfg')"
    and "NumConsumers (RemoteWriteQueue cfg) = NumConsumers (RemoteWriteQueue cfg')"
    and "MultiTenancy.Enabled (MultiTenancy cfg) = MultiTenancy.Enabled (MultiTenancy cfg')"
    and "Header (MultiTenancy cfg) = Header (MultiTenancy cfg')"
    and "QueryParam (MultiTenancy cfg) = QueryParam (MultiTenancy cfg')"
    and "FromLabel (MultiTenancy cfg) = FromLabel (MultiTenancy cfg')"
  shows "Validate cfg = Validate cfg'"
  using assms by (simp add: Validate_def)

theorem Validate_depends_on_seven_fields_witness:
  "RemoteWriteQueue.Enabled (RemoteWriteQueue scenario_B)
     = RemoteWriteQueue.Enabled (RemoteWriteQueue scenario_B_decorated)
   \<and> QueueSize (RemoteWriteQueue scenario_B) = QueueSize (RemoteWriteQueue scenario_B_decorated)
   \<and> NumConsumers (RemoteWriteQueue scenario_B)
       = NumConsumers (RemoteWriteQueue scenario_B_decorated)
   \<and> MultiTenancy.Enabled (MultiTenancy scenario_B)
       = MultiTenancy.Enabled (MultiTenancy scenario_B_decorated)
   \<and> Header (MultiTenancy scenario_B) = Header (MultiTenancy scenario_B_decorated)
   \<and> QueryParam (MultiTenancy scenario_B) = QueryParam (MultiTenancy scenario_B_decorated)
   \<and> FromLabel (MultiTenancy scenario_B) = FromLabel (MultiTenancy scenario_B_decorated)
   \<and> Namespace scenario_B \<noteq> Namespace scenario_B_decorated
   \<and> DefaultTenant (MultiTenancy scenario_B) \<noteq> DefaultTenant (MultiTenancy scenario_B_decorated)
   \<and> sanitizeLabel scenario_B \<noteq> sanitizeLabel scenario_B_decorated
   \<and> Validate scenario_B = Validate scenario_B_decorated"
proof -
  have en: "RemoteWriteQueue.Enabled (RemoteWriteQueue scenario_B)
      = RemoteWriteQueue.Enabled (RemoteWriteQueue scenario_B_decorated)"
    and sz: "QueueSize (RemoteWriteQueue scenario_B)
      = QueueSize (RemoteWriteQueue scenario_B_decorated)"
    and nc: "NumConsumers (RemoteWriteQueue scenario_B)
      = NumConsumers (RemoteWriteQueue scenario_B_decorated)"
    and mt: "MultiTenancy.Enabled (MultiTenancy scenario_B)
      = MultiTenancy.Enabled (MultiTenancy scenario_B_decorated)"
    and hd: "Header (MultiTenancy scenario_B) = Header (MultiTenancy scenario_B_decorated)"
    and qp: "QueryParam (MultiTenancy scenario_B)
      = QueryParam (MultiTenancy scenario_B_decorated)"
    and fl: "FromLabel (MultiTenancy scenario_B) = FromLabel (MultiTenancy scenario_B_decorated)"
    by (simp_all add: scenario_B_def scenario_B_decorated_def example_defs)
  have other: "Namespace scenario_B \<noteq> Namespace scenario_B_decorated"
    "DefaultTenant (MultiTenancy scenario_B) \<noteq> DefaultTenant (MultiTenancy scenario_B_decorated)"
    "sanitizeLabel scenario_B \<noteq> sanitizeLabel scenario_B_decorated"
    by (simp_all add: scenario_B_def scenario_B_decorated_def example_defs)
  from en sz nc mt hd qp fl other
    Validate_depends_on_seven_fields [OF en sz nc mt hd qp fl]
  show ?thesis by blast
qed

end
